theory Spec2Isabelle
  imports Main "HOL-Library.Word"
begin

section \<open>Strings\<close>

text \<open>
  The program is the single React component of \<^verbatim>\<open>src/app/page.tsx\<close>. Its strings are
  ECMAScript strings: finite sequences of UTF-16 code units. Literals that are not ASCII
  (the separator U+3001, the label of the first message, the prompt) are given by their
  code units.
\<close>

type_synonym jsstring = "16 word list"

definition ascii :: "string \<Rightarrow> jsstring" where
  "ascii s = map of_char s"

text \<open>
  \<^verbatim>\<open>String.prototype.trim\<close> removes the code units of WhiteSpace and LineTerminator from
  both ends: TAB, LF, VT, FF, CR, SP, NBSP, the space separators of Unicode (all of them
  in the basic plane), LS, PS and U+FEFF.
\<close>

definition isWhiteSpace :: "16 word \<Rightarrow> bool" where
  "isWhiteSpace c \<longleftrightarrow> c \<in> set [0x9, 0xA, 0xB, 0xC, 0xD, 0x20, 0xA0, 0x1680,
     0x2000, 0x2001, 0x2002, 0x2003, 0x2004, 0x2005, 0x2006, 0x2007, 0x2008, 0x2009, 0x200A,
     0x2028, 0x2029, 0x202F, 0x205F, 0x3000, 0xFEFF]"

definition trim :: "jsstring \<Rightarrow> jsstring" where
  "trim s = rev (dropWhile isWhiteSpace (rev (dropWhile isWhiteSpace s)))"

text \<open>\<^verbatim>\<open>Array.prototype.join\<close> on an array of strings.\<close>

fun join :: "jsstring \<Rightarrow> jsstring list \<Rightarrow> jsstring" where
  "join sep [] = []"
| "join sep [x] = x"
| "join sep (x # y # ys) = x @ sep @ join sep (y # ys)"

text \<open>
  \<^verbatim>\<open>Date.now().toString()\<close>: the clock value is an integral number of milliseconds, far
  below the magnitude at which a Number prints with an exponent, so the result is its
  decimal numeral.
\<close>

fun digits :: "nat \<Rightarrow> jsstring" where
  "digits n = (if n < 10 then [of_nat (48 + n)] else digits (n div 10) @ [of_nat (48 + n mod 10)])"

declare digits.simps [simp del]

definition toString :: "int \<Rightarrow> jsstring" where
  "toString i = (if i < 0 then 0x2D # digits (nat (- i)) else digits (nat i))"

section \<open>Data model\<close>

record Ingredient =
  id_row :: jsstring
  name :: jsstring
  amount :: jsstring

datatype role = User | Assistant

text \<open>\<^verbatim>\<open>isIngredientList?: boolean\<close> is an optional member: \<open>None\<close> is an absent member.\<close>

record ChatMessage =
  role :: role
  text_msg :: jsstring
  isIngredientList :: "bool option"

text \<open>The four \<^verbatim>\<open>useState\<close> cells of the component.\<close>

record app_state =
  ingredients :: "Ingredient list"
  chatHistory :: "ChatMessage list"
  isLoading :: bool
  inputText :: jsstring

definition initialIngredients :: "Ingredient list" where
  "initialIngredients =
     [\<lparr>id_row = ascii ''1'', name = [], amount = []\<rparr>,
      \<lparr>id_row = ascii ''2'', name = [], amount = []\<rparr>,
      \<lparr>id_row = ascii ''3'', name = [], amount = []\<rparr>]"

definition initial :: app_state where
  "initial = \<lparr>ingredients = initialIngredients, chatHistory = [], isLoading = False, inputText = []\<rparr>"

section \<open>Ingredient editor\<close>

text \<open>The argument \<open>now\<close> of \<open>addIngredient\<close> is the value \<^verbatim>\<open>Date.now()\<close> returns.\<close>

definition addIngredient :: "int \<Rightarrow> app_state \<Rightarrow> app_state" where
  "addIngredient now s =
     (let newId = toString now
      in s\<lparr>ingredients := ingredients s @ [\<lparr>id_row = newId, name = [], amount = []\<rparr>]\<rparr>)"

definition removeIngredient :: "jsstring \<Rightarrow> app_state \<Rightarrow> app_state" where
  "removeIngredient i s = s\<lparr>ingredients := filter (\<lambda>ing. id_row ing \<noteq> i) (ingredients s)\<rparr>"

datatype field = Name | Amount

definition setField :: "field \<Rightarrow> jsstring \<Rightarrow> Ingredient \<Rightarrow> Ingredient" where
  "setField f v ing = (case f of Name \<Rightarrow> ing\<lparr>name := v\<rparr> | Amount \<Rightarrow> ing\<lparr>amount := v\<rparr>)"

definition updateIngredient :: "jsstring \<Rightarrow> field \<Rightarrow> jsstring \<Rightarrow> app_state \<Rightarrow> app_state" where
  "updateIngredient i f v s =
     s\<lparr>ingredients := map (\<lambda>ing. if id_row ing = i then setField f v ing else ing) (ingredients s)\<rparr>"

definition resetChat :: "app_state \<Rightarrow> app_state" where
  "resetChat s = s\<lparr>chatHistory := [], inputText := [], isLoading := False\<rparr>"

section \<open>Prompt construction\<close>

text \<open>
  The expression bound to \<^verbatim>\<open>ingredientsList\<close> in \<^verbatim>\<open>generateRecipe\<close>: filter on the trimmed
  name, the template \<^verbatim>\<open>`${ing.name} ${ing.amount}g`\<close>, join with U+3001.
\<close>

definition named :: "Ingredient \<Rightarrow> bool" where
  "named ing \<longleftrightarrow> trim (name ing) \<noteq> []"

definition formatIngredient :: "Ingredient \<Rightarrow> jsstring" where
  "formatIngredient ing = name ing @ ascii '' '' @ amount ing @ ascii ''g''"

definition buildPromptIngredientsList :: "Ingredient list \<Rightarrow> jsstring" where
  "buildPromptIngredientsList ings = join [0x3001] (map formatIngredient (filter named ings))"

definition BASIC_SEASONINGS :: jsstring where
  "BASIC_SEASONINGS =
    [0xA, 0x8ABF, 0x5473, 0x6599, 0x30FB, 0x9999, 0x8F9B, 0x6599, 0x306F, 0x4EE5, 0x4E0B,
     0x306E, 0x3082, 0x306E, 0x3092, 0x9069, 0x5B9C, 0x4F7F, 0x7528, 0x53EF, 0x80FD, 0x3068,
     0x3057, 0x307E, 0x3059, 0xFF1A, 0xA, 0x2D, 0x20, 0x57FA, 0x672C, 0x8ABF, 0x5473, 0x6599,
     0xFF1A, 0x5869, 0x3001, 0x7802, 0x7CD6, 0x3001, 0x91A4, 0x6CB9, 0x3001, 0x5473, 0x564C,
     0x3001, 0x9162, 0x3001, 0x307F, 0x308A, 0x3093, 0x3001, 0x6599, 0x7406, 0x9152, 0xA,
     0x2D, 0x20, 0x6CB9, 0x985E, 0xFF1A, 0x30B5, 0x30E9, 0x30C0, 0x6CB9, 0x3001, 0x3054,
     0x307E, 0x6CB9, 0x3001, 0x30AA, 0x30EA, 0x30FC, 0x30D6, 0x30AA, 0x30A4, 0x30EB, 0xA,
     0x2D, 0x20, 0x85AC, 0x5473, 0x30FB, 0x9999, 0x8F9B, 0x6599, 0xFF1A, 0x80E1, 0x6912,
     0x3001, 0x304B, 0x3089, 0x3057, 0x3001, 0x308F, 0x3055, 0x3073, 0x3001, 0x751F, 0x59DC,
     0x3001, 0x306B, 0x3093, 0x306B, 0x304F, 0xA, 0x2D, 0x20, 0x8ABF, 0x5473, 0x6599, 0xFF1A,
     0x30DE, 0x30E8, 0x30CD, 0x30FC, 0x30BA, 0x3001, 0x30B1, 0x30C1, 0x30E3, 0x30C3, 0x30D7,
     0x3001, 0x30BD, 0x30FC, 0x30B9, 0x3001, 0x3081, 0x3093, 0x3064, 0x3086, 0x3001, 0x3060,
     0x3057, 0x3001, 0x30DD, 0x30F3, 0x9162, 0x3001, 0x30C9, 0x30EC, 0x30C3, 0x30B7, 0x30F3,
     0x30B0, 0xA, 0x2D, 0x20, 0x4E2D, 0x83EF, 0x8ABF, 0x5473, 0x6599, 0xFF1A, 0x8C46, 0x677F,
     0x91A4, 0x3001, 0x751C, 0x9EBA, 0x91A4, 0xA]"

definition prompt_head :: jsstring where
  "prompt_head =
    [0x4EE5, 0x4E0B, 0x306E, 0x98DF, 0x6750, 0xFF08, 0x30B0, 0x30E9, 0x30E0, 0x5358, 0x4F4D,
     0xFF09, 0x3092, 0x4F7F, 0x7528, 0x3057, 0x305F, 0x6599, 0x7406, 0x306E, 0x30EC, 0x30B7,
     0x30D4, 0x3092, 0x63D0, 0x6848, 0x3057, 0x3066, 0x304F, 0x3060, 0x3055, 0x3044, 0xFF1A,
     0xA]"

definition prompt_notes :: jsstring where
  "prompt_notes =
    [0xA, 0xA, 0x6CE8, 0x610F, 0x4E8B, 0x9805, 0xFF1A, 0xA, 0x2D, 0x20, 0x3067, 0x304D,
     0x308B, 0x9650, 0x308A, 0x5165, 0x529B, 0x3055, 0x308C, 0x305F, 0x98DF, 0x6750, 0x306E,
     0x307F, 0x3092, 0x4F7F, 0x7528, 0x3057, 0x3066, 0x30EC, 0x30B7, 0x30D4, 0x3092, 0x8003,
     0x3048, 0x3066, 0x304F, 0x3060, 0x3055, 0x3044, 0xA, 0x2D, 0x20, 0x5168, 0x3066, 0x306E,
     0x98DF, 0x6750, 0x3092, 0x4F7F, 0x3044, 0x5207, 0x308B, 0x5FC5, 0x8981, 0x306F, 0x3042,
     0x308A, 0x307E, 0x305B, 0x3093, 0x304C, 0x3001, 0x3067, 0x304D, 0x308B, 0x3060, 0x3051,
     0x591A, 0x304F, 0x306E, 0x98DF, 0x6750, 0x3092, 0x6D3B, 0x7528, 0x3057, 0x3066, 0x304F,
     0x3060, 0x3055, 0x3044, 0xA, 0x2D, 0x20, 0x4F59, 0x3063, 0x305F, 0x98DF, 0x6750, 0x306F,
     0x4ED6, 0x306E, 0x6599, 0x7406, 0x3084, 0x4FDD, 0x5B58, 0x53EF, 0x80FD, 0x3067, 0x3059,
     0xA, 0xA]"

definition prompt_format :: jsstring where
  "prompt_format =
    [0xA, 0xA, 0x4EE5, 0x4E0B, 0x306E, 0x5F62, 0x5F0F, 0x3067, 0x51FA, 0x529B, 0x3057, 0x3066,
     0x304F, 0x3060, 0x3055, 0x3044, 0xFF1A, 0xA, 0x31, 0x2E, 0x20, 0x6599, 0x7406, 0x540D,
     0xA, 0x32, 0x2E, 0x20, 0x8ABF, 0x7406, 0x6642, 0x9593, 0xA, 0x33, 0x2E, 0x20, 0x5B9F,
     0x969B, 0x306B, 0x4F7F, 0x7528, 0x3059, 0x308B, 0x98DF, 0x6750, 0x3068, 0x91CF, 0xA,
     0x34, 0x2E, 0x20, 0x624B, 0x9806, 0xA, 0x35, 0x2E, 0x20, 0x30B3, 0x30C4, 0x3084, 0x30DD,
     0x30A4, 0x30F3, 0x30C8]"

definition prompt :: "jsstring \<Rightarrow> jsstring" where
  "prompt ingredientsList =
     prompt_head @ ingredientsList @ prompt_notes @ BASIC_SEASONINGS @ prompt_format"

section \<open>The response of the endpoint\<close>

text \<open>
  \<^verbatim>\<open>response.data\<close> is the parsed body: a JSON value (axios leaves a body that does not
  parse as a string). A number is represented by its string conversion, the only
  observation this program can make of it; an object by its members, looked up by key.
\<close>

datatype json =
    JNull
  | JBool bool
  | JNum jsstring
  | JStr jsstring
  | JArr "json list"
  | JObj "(jsstring \<times> json) list"

text \<open>A value read by the program is a JSON value or \<^verbatim>\<open>undefined\<close> (\<open>None\<close>).\<close>

type_synonym jsvalue = "json option"

datatype exn = NetworkError | TypeError

definition bindE :: "exn + 'a \<Rightarrow> ('a \<Rightarrow> exn + 'b) \<Rightarrow> exn + 'b" where
  "bindE m f = (case m of Inl e \<Rightarrow> Inl e | Inr x \<Rightarrow> f x)"

fun sequenceE :: "(exn + 'a) list \<Rightarrow> exn + 'a list" where
  "sequenceE [] = Inr []"
| "sequenceE (m # ms) = bindE m (\<lambda>x. bindE (sequenceE ms) (\<lambda>xs. Inr (x # xs)))"

text \<open>
  Reading a member \<^verbatim>\<open>v.k\<close>, for the names the program reads (\<^verbatim>\<open>candidates\<close>,
  \<^verbatim>\<open>content\<close>, \<^verbatim>\<open>parts\<close>, \<^verbatim>\<open>text\<close>): \<^verbatim>\<open>undefined\<close> and \<^verbatim>\<open>null\<close> throw a TypeError, an
  object gives its member or \<^verbatim>\<open>undefined\<close>, and every other value gives \<^verbatim>\<open>undefined\<close>,
  none of these names being a built-in property of strings, numbers, booleans or arrays.
\<close>

fun getMember :: "jsvalue \<Rightarrow> jsstring \<Rightarrow> exn + jsvalue" where
  "getMember None k = Inl TypeError"
| "getMember (Some JNull) k = Inl TypeError"
| "getMember (Some (JObj kvs)) k = Inr (map_of kvs k)"
| "getMember (Some v) k = Inr None"

text \<open>Reading \<^verbatim>\<open>v[0]\<close>.\<close>

fun getIndex0 :: "jsvalue \<Rightarrow> exn + jsvalue" where
  "getIndex0 None = Inl TypeError"
| "getIndex0 (Some JNull) = Inl TypeError"
| "getIndex0 (Some (JArr xs)) = Inr (case xs of [] \<Rightarrow> None | x # _ \<Rightarrow> Some x)"
| "getIndex0 (Some (JStr s)) = Inr (case s of [] \<Rightarrow> None | c # _ \<Rightarrow> Some (JStr [c]))"
| "getIndex0 (Some (JObj kvs)) = Inr (map_of kvs (ascii ''0''))"
| "getIndex0 (Some v) = Inr None"

text \<open>
  The string conversion \<^verbatim>\<open>join\<close> applies to an element that is neither \<^verbatim>\<open>undefined\<close>
  nor \<^verbatim>\<open>null\<close>. An array converts by joining its elements with a comma; an object
  converts to \<^verbatim>\<open>[object Object]\<close>, unless it has a member \<^verbatim>\<open>toString\<close> of its own, which
  is not callable, and then the conversion throws.
\<close>

fun ToString :: "json \<Rightarrow> exn + jsstring" where
  "ToString JNull = Inr (ascii ''null'')"
| "ToString (JBool b) = Inr (if b then ascii ''true'' else ascii ''false'')"
| "ToString (JNum r) = Inr r"
| "ToString (JStr s) = Inr s"
| "ToString (JArr xs) =
     bindE (sequenceE (map (\<lambda>x. if x = JNull then Inr [] else ToString x) xs))
       (\<lambda>ss. Inr (join (ascii '','') ss))"
| "ToString (JObj kvs) =
     (if ascii ''toString'' \<in> fst ` set kvs then Inl TypeError
      else Inr (ascii ''[object Object]''))"

definition elementString :: "jsvalue \<Rightarrow> exn + jsstring" where
  "elementString v = (case v of None \<Rightarrow> Inr [] | Some JNull \<Rightarrow> Inr [] | Some x \<Rightarrow> ToString x)"

definition joinValues :: "jsstring \<Rightarrow> jsvalue list \<Rightarrow> exn + jsstring" where
  "joinValues sep vs = bindE (sequenceE (map elementString vs)) (\<lambda>ss. Inr (join sep ss))"

text \<open>
  \<^verbatim>\<open>v.map((part) => part.text)\<close>: only an array has a callable \<^verbatim>\<open>map\<close>; the elements of
  a parsed array are never \<^verbatim>\<open>undefined\<close>.
\<close>

definition mapText :: "jsvalue \<Rightarrow> exn + jsvalue list" where
  "mapText v =
     (case v of
        Some (JArr ps) \<Rightarrow> sequenceE (map (\<lambda>part. getMember (Some part) (ascii ''text'')) ps)
      | _ \<Rightarrow> Inl TypeError)"

text \<open>
  The two statements after the \<^verbatim>\<open>await\<close>, the same in both handlers:
  \<^verbatim>\<open>response.data.candidates[0].content\<close>, then \<^verbatim>\<open>.parts.map(part => part.text).join("\n")\<close>.
\<close>

definition extractReply :: "json \<Rightarrow> exn + jsstring" where
  "extractReply data =
     bindE (getMember (Some data) (ascii ''candidates'')) (\<lambda>candidates.
     bindE (getIndex0 candidates) (\<lambda>candidate.
     bindE (getMember candidate (ascii ''content'')) (\<lambda>responseContent.
     bindE (getMember responseContent (ascii ''parts'')) (\<lambda>parts.
     bindE (mapText parts) (\<lambda>texts.
     joinValues [0xA] texts)))))"

section \<open>The two request handlers\<close>

text \<open>
  The promise of \<^verbatim>\<open>axios.post\<close> is rejected (no connection, a status outside 2xx) or
  resolved with a body.
\<close>

datatype outcome = Rejected | Resolved json

definition awaitPost :: "outcome \<Rightarrow> exn + json" where
  "awaitPost out = (case out of Rejected \<Rightarrow> Inl NetworkError | Resolved data \<Rightarrow> Inr data)"

text \<open>The \<^verbatim>\<open>try\<close> block up to the text of the reply.\<close>

definition replyOf :: "outcome \<Rightarrow> exn + jsstring" where
  "replyOf out = bindE (awaitPost out) extractReply"

text \<open>
  A request body is the list \<^verbatim>\<open>contents\<close>: each entry has one text part, and a role in
  the follow-up request only.
\<close>

type_synonym request = "(role option \<times> jsstring) list"

text \<open>
  A handler runs to its \<^verbatim>\<open>await\<close> and is resumed when the promise settles. What it
  resumes with is what its closure captured: \<^verbatim>\<open>ingredientsList\<close> for
  \<^verbatim>\<open>generateRecipe\<close>, \<^verbatim>\<open>newHistory\<close> for \<^verbatim>\<open>sendMessage\<close>.
\<close>

datatype continuation = GenerateRecipeAwait jsstring | SendMessageAwait "ChatMessage list"

text \<open>
  The part of each handler before the \<^verbatim>\<open>await\<close>: \<open>None\<close> is the early \<^verbatim>\<open>return\<close>,
  otherwise the state after \<^verbatim>\<open>setIsLoading(true)\<close>, the request sent and the continuation.
\<close>

definition generateRecipe_send :: "app_state \<Rightarrow> (app_state \<times> request \<times> continuation) option" where
  "generateRecipe_send s =
     (if length (ingredients s) = 0 then None
      else let ingredientsList = buildPromptIngredientsList (ingredients s)
           in Some (s\<lparr>isLoading := True\<rparr>,
                    [(None, prompt ingredientsList)],
                    GenerateRecipeAwait ingredientsList))"

definition sendMessage_send :: "app_state \<Rightarrow> (app_state \<times> request \<times> continuation) option" where
  "sendMessage_send s =
     (if trim (inputText s) = [] then None
      else let newHistory = chatHistory s
                 @ [\<lparr>role = User, text_msg = inputText s, isIngredientList = None\<rparr>]
           in Some (s\<lparr>isLoading := True\<rparr>,
                    map (\<lambda>msg. (Some (role msg), text_msg msg)) newHistory,
                    SendMessageAwait newHistory))"

text \<open>
  The part after the \<^verbatim>\<open>await\<close>: the rest of the \<^verbatim>\<open>try\<close> block, the \<^verbatim>\<open>catch\<close> (which only
  logs the error, returned here beside the state) and the \<^verbatim>\<open>finally\<close>.
\<close>

fun resume :: "continuation \<Rightarrow> outcome \<Rightarrow> app_state \<Rightarrow> app_state \<times> exn option" where
  "resume (GenerateRecipeAwait ingredientsList) out s =
     (case replyOf out of
        Inr recipe \<Rightarrow>
          (s\<lparr>chatHistory :=
               [\<lparr>role = User, text_msg = [0x98DF, 0x6750, 0xFF1A] @ ingredientsList,
                  isIngredientList = Some True\<rparr>,
                \<lparr>role = Assistant, text_msg = recipe, isIngredientList = None\<rparr>],
             isLoading := False\<rparr>, None)
      | Inl error \<Rightarrow> (s\<lparr>isLoading := False\<rparr>, Some error))"
| "resume (SendMessageAwait newHistory) out s =
     (case replyOf out of
        Inr responseParts \<Rightarrow>
          (s\<lparr>chatHistory :=
               newHistory @ [\<lparr>role = Assistant, text_msg = responseParts, isIngredientList = None\<rparr>],
             inputText := [],
             isLoading := False\<rparr>, None)
      | Inl error \<Rightarrow> (s\<lparr>isLoading := False\<rparr>, Some error))"

text \<open>
  A handler run from its call to the settling of its request, with no other event in
  between.
\<close>

definition generateRecipe :: "app_state \<Rightarrow> outcome \<Rightarrow> app_state" where
  "generateRecipe s out =
     (case generateRecipe_send s of
        None \<Rightarrow> s
      | Some (s', req, k) \<Rightarrow> fst (resume k out s'))"

definition sendMessage :: "app_state \<Rightarrow> outcome \<Rightarrow> app_state" where
  "sendMessage s out =
     (case sendMessage_send s of
        None \<Rightarrow> s
      | Some (s', req, k) \<Rightarrow> fst (resume k out s'))"

section \<open>The component and its events\<close>

text \<open>
  The component with the requests that have not settled yet, in the order they were sent,
  and the errors written by \<^verbatim>\<open>console.error\<close>.
\<close>

record system =
  ui :: app_state
  outstanding :: "(request \<times> continuation) list"
  console :: "exn list"

definition start :: system where
  "start = \<lparr>ui = initial, outstanding = [], console = []\<rparr>"

text \<open>
  The events the rendered page delivers: the buttons, the change of a row field or of the
  chat input, a key pressed in the chat input (its \<^verbatim>\<open>key\<close> and \<^verbatim>\<open>shiftKey\<close>), and the
  settling of the \<open>n\<close>-th outstanding request.
\<close>

datatype event =
    AddClick int
  | RemoveClick jsstring
  | RowChange jsstring field jsstring
  | ResetClick
  | GenerateClick
  | SendClick
  | InputChange jsstring
  | InputKeyDown jsstring bool
  | Settle nat outcome

definition call :: "(app_state \<Rightarrow> (app_state \<times> request \<times> continuation) option) \<Rightarrow> system \<Rightarrow> system" where
  "call handler sys =
     (case handler (ui sys) of
        None \<Rightarrow> sys
      | Some (s', req, k) \<Rightarrow> sys\<lparr>ui := s', outstanding := outstanding sys @ [(req, k)]\<rparr>)"

text \<open>The \<^verbatim>\<open>disabled\<close> attribute of the button that calls \<^verbatim>\<open>generateRecipe\<close>.\<close>

definition generateDisabled :: "app_state \<Rightarrow> bool" where
  "generateDisabled s \<longleftrightarrow> isLoading s \<or> length (filter named (ingredients s)) = 0"

definition settle :: "nat \<Rightarrow> outcome \<Rightarrow> system \<Rightarrow> system" where
  "settle n out sys =
     (if n < length (outstanding sys)
      then let (s', logged) = resume (snd (outstanding sys ! n)) out (ui sys)
           in sys\<lparr>ui := s',
                  outstanding := take n (outstanding sys) @ drop (Suc n) (outstanding sys),
                  console := console sys @ (case logged of None \<Rightarrow> [] | Some e \<Rightarrow> [e])\<rparr>
      else sys)"

text \<open>A disabled button delivers no click.\<close>

fun step :: "event \<Rightarrow> system \<Rightarrow> system" where
  "step (AddClick now) sys = sys\<lparr>ui := addIngredient now (ui sys)\<rparr>"
| "step (RemoveClick i) sys = sys\<lparr>ui := removeIngredient i (ui sys)\<rparr>"
| "step (RowChange i f v) sys = sys\<lparr>ui := updateIngredient i f v (ui sys)\<rparr>"
| "step ResetClick sys = sys\<lparr>ui := resetChat (ui sys)\<rparr>"
| "step GenerateClick sys =
     (if generateDisabled (ui sys) then sys else call generateRecipe_send sys)"
| "step SendClick sys =
     (if isLoading (ui sys) then sys else call sendMessage_send sys)"
| "step (InputChange v) sys = sys\<lparr>ui := (ui sys)\<lparr>inputText := v\<rparr>\<rparr>"
| "step (InputKeyDown key shiftKey) sys =
     (if key = ascii ''Enter'' \<and> \<not> shiftKey then call sendMessage_send sys else sys)"
| "step (Settle n out) sys = settle n out sys"

fun run :: "event list \<Rightarrow> system \<Rightarrow> system" where
  "run [] sys = sys"
| "run (e # es) sys = run es (step e sys)"

section \<open>Notions used by the properties\<close>

text \<open>
  The shape of a body the program expects, read off the specification of the endpoint:
  an object whose \<^verbatim>\<open>candidates\<close> is an array, the first candidate an object whose
  \<^verbatim>\<open>content\<close> is an object whose \<^verbatim>\<open>parts\<close> is an array of objects, each with a string
  \<^verbatim>\<open>text\<close>. \<open>expectedSegments\<close> gives the segments of such a body, in order, and \<open>None\<close>
  for any other body. It is independent of \<open>extractReply\<close>, with which it is compared.
\<close>

fun objectMember :: "json \<Rightarrow> jsstring \<Rightarrow> json option" where
  "objectMember (JObj kvs) k = map_of kvs k"
| "objectMember v k = None"

fun arrayElements :: "json \<Rightarrow> json list option" where
  "arrayElements (JArr xs) = Some xs"
| "arrayElements v = None"

fun stringOf :: "json \<Rightarrow> jsstring option" where
  "stringOf (JStr t) = Some t"
| "stringOf v = None"

definition segmentOf :: "json \<Rightarrow> jsstring option" where
  "segmentOf part = Option.bind (objectMember part (ascii ''text'')) stringOf"

definition expectedSegments :: "json \<Rightarrow> jsstring list option" where
  "expectedSegments data =
     Option.bind (objectMember data (ascii ''candidates'')) (\<lambda>candidates.
     Option.bind (arrayElements candidates) (\<lambda>cs.
     case cs of
       [] \<Rightarrow> None
     | candidate # _ \<Rightarrow>
         Option.bind (objectMember candidate (ascii ''content'')) (\<lambda>content.
         Option.bind (objectMember content (ascii ''parts'')) (\<lambda>parts.
         Option.bind (arrayElements parts) (\<lambda>ps. those (map segmentOf ps))))))"

text \<open>The body of the example: one candidate with the segments \<^verbatim>\<open>A\<close> and \<^verbatim>\<open>B\<close>.\<close>

definition exampleBody :: json where
  "exampleBody =
     JObj [(ascii ''candidates'',
       JArr [JObj [(ascii ''content'',
         JObj [(ascii ''parts'',
           JArr [JObj [(ascii ''text'', JStr (ascii ''A''))],
                 JObj [(ascii ''text'', JStr (ascii ''B''))]])])]])]"

text \<open>A transcript that is empty or begins with the ingredient-list message of the user.\<close>

fun headed :: "ChatMessage list \<Rightarrow> bool" where
  "headed [] = True"
| "headed (m # ms) = (role m = User \<and> isIngredientList m = Some True)"

text \<open>The events that call \<^verbatim>\<open>sendMessage\<close>.\<close>

fun sendsFollowUp :: "event \<Rightarrow> bool" where
  "sendsFollowUp SendClick = True"
| "sendsFollowUp (InputKeyDown key shiftKey) = (key = ascii ''Enter'' \<and> \<not> shiftKey)"
| "sendsFollowUp e = False"

text \<open>
  A sequence of events, from a given state, in which every follow-up is sent while the
  transcript on the page is not empty.
\<close>

fun followUpsAfterRecipe :: "event list \<Rightarrow> system \<Rightarrow> bool" where
  "followUpsAfterRecipe [] sys = True"
| "followUpsAfterRecipe (e # es) sys =
     ((sendsFollowUp e \<longrightarrow> chatHistory (ui sys) \<noteq> []) \<and> followUpsAfterRecipe es (step e sys))"

text \<open>
  The invariant behind it: the transcript is headed, and so is the history every
  outstanding follow-up has captured and will write back.
\<close>

fun capturedHeaded :: "continuation \<Rightarrow> bool" where
  "capturedHeaded (GenerateRecipeAwait ingredientsList) = True"
| "capturedHeaded (SendMessageAwait newHistory) = (newHistory \<noteq> [] \<and> headed newHistory)"

definition headedInv :: "system \<Rightarrow> bool" where
  "headedInv sys \<longleftrightarrow>
     headed (chatHistory (ui sys)) \<and> list_all (\<lambda>(req, k). capturedHeaded k) (outstanding sys)"

section \<open>Properties of the ingredient editor\<close>

text \<open>
  What the three operations do to the rows: \<open>addIngredient\<close> appends one row and keeps
  the others, \<open>removeIngredient\<close> keeps the rows with another id in their order, and
  \<open>updateIngredient\<close> keeps every id in its place.
\<close>

lemma addIngredient_rows:
  "ingredients (addIngredient now s)
     = ingredients s @ [\<lparr>id_row = toString now, name = [], amount = []\<rparr>]"
  by (simp add: addIngredient_def)

lemma removeIngredient_rows:
  "ingredients (removeIngredient i s) = filter (\<lambda>ing. id_row ing \<noteq> i) (ingredients s)"
  by (simp add: removeIngredient_def)

lemma removeIngredient_ids:
  "map id_row (ingredients (removeIngredient i s))
     = filter (\<lambda>j. j \<noteq> i) (map id_row (ingredients s))"
  by (simp add: removeIngredient_def filter_map comp_def)

lemma updateIngredient_ids:
  "map id_row (ingredients (updateIngredient i f v s)) = map id_row (ingredients s)"
  by (simp add: updateIngredient_def setField_def comp_def split: field.split)

text \<open>
  Ids stay distinct under removal and update, and under an addition whose clock value
  prints to an id no row has.
\<close>

lemma removeIngredient_distinct:
  "distinct (map id_row (ingredients s)) \<Longrightarrow>
   distinct (map id_row (ingredients (removeIngredient i s)))"
  by (simp add: removeIngredient_ids)

lemma addIngredient_fresh_distinct:
  assumes "distinct (map id_row (ingredients s))"
    and "toString now \<notin> id_row ` set (ingredients s)"
  shows "distinct (map id_row (ingredients (addIngredient now s)))"
  using assms by (simp add: addIngredient_def)

lemma toString_tick: "toString 1700000000000 = ascii ''1700000000000''"
  by (simp add: toString_def digits.simps ascii_def)

text \<open>
  Claim C5 says that under every sequence of additions, removals and updates the rows keep
  their order and their ids, and the ids are pairwise distinct. Order and ids are kept
  (the lemmas above). Distinctness is not: the id of a new row is the clock value
  \<^verbatim>\<open>Date.now()\<close>, and two additions within one millisecond give two rows the same id.
  From the three initial rows, two clicks on the add button at clock value
  1700000000000 leave the ids 1, 2, 3, 1700000000000, 1700000000000; the remove button of
  either new row then deletes both.
\<close>

theorem addIngredient_same_millisecond:
  "map id_row (ingredients (ui (run [AddClick 1700000000000, AddClick 1700000000000] start)))
     = [ascii ''1'', ascii ''2'', ascii ''3'', ascii ''1700000000000'', ascii ''1700000000000'']
   \<and> \<not> distinct (map id_row
         (ingredients (ui (run [AddClick 1700000000000, AddClick 1700000000000] start))))
   \<and> ingredients (ui (run [AddClick 1700000000000, AddClick 1700000000000,
                            RemoveClick (ascii ''1700000000000'')] start))
     = initialIngredients"
  by (simp add: start_def initial_def initialIngredients_def addIngredient_def
      removeIngredient_def toString_tick) (simp add: ascii_def)

text \<open>
  Claim C6. The ingredient list of the prompt drops exactly the rows whose trimmed name is
  empty, renders each remaining row as its name, a space, its amount and \<^verbatim>\<open>g\<close>, and joins
  them with U+3001. The rows onion/200, (blank)/50, carrot/(blank) give
  \<^verbatim>\<open>onion 200g\<close>, U+3001, \<^verbatim>\<open>carrot g\<close>; a list whose names are all blank gives the empty
  string. The function has no failing branch.
\<close>

theorem buildPromptIngredientsList_spec:
  "buildPromptIngredientsList ings =
     join [0x3001] (map (\<lambda>ing. name ing @ ascii '' '' @ amount ing @ ascii ''g'')
                        (filter (\<lambda>ing. trim (name ing) \<noteq> []) ings))
   \<and> buildPromptIngredientsList
       [\<lparr>id_row = i1, name = ascii ''onion'', amount = ascii ''200''\<rparr>,
        \<lparr>id_row = i2, name = [], amount = ascii ''50''\<rparr>,
        \<lparr>id_row = i3, name = ascii ''carrot'', amount = []\<rparr>]
       = ascii ''onion 200g'' @ [0x3001] @ ascii ''carrot g''
   \<and> ((\<forall>ing \<in> set ings. trim (name ing) = []) \<longrightarrow> buildPromptIngredientsList ings = [])"
proof (intro conjI impI)
  show "buildPromptIngredientsList ings =
     join [0x3001] (map (\<lambda>ing. name ing @ ascii '' '' @ amount ing @ ascii ''g'')
                        (filter (\<lambda>ing. trim (name ing) \<noteq> []) ings))"
    unfolding buildPromptIngredientsList_def
    by (simp add: named_def[abs_def] formatIngredient_def[abs_def])
next
  show "buildPromptIngredientsList
       [\<lparr>id_row = i1, name = ascii ''onion'', amount = ascii ''200''\<rparr>,
        \<lparr>id_row = i2, name = [], amount = ascii ''50''\<rparr>,
        \<lparr>id_row = i3, name = ascii ''carrot'', amount = []\<rparr>]
       = ascii ''onion 200g'' @ [0x3001] @ ascii ''carrot g''"
    by (simp add: buildPromptIngredientsList_def named_def formatIngredient_def trim_def
        isWhiteSpace_def ascii_def)
next
  assume "\<forall>ing \<in> set ings. trim (name ing) = []"
  then have "filter named ings = []"
    by (simp add: named_def filter_empty_conv)
  then show "buildPromptIngredientsList ings = []"
    by (simp add: buildPromptIngredientsList_def)
qed

theorem buildPromptIngredientsList_witness:
  "map (\<lambda>ing. trim (name ing)) initialIngredients = [[], [], []]
   \<and> buildPromptIngredientsList initialIngredients = []"
  using buildPromptIngredientsList_spec [of initialIngredients]
  by (simp add: initialIngredients_def trim_def)

text \<open>
  Claim C10. \<^verbatim>\<open>resetChat\<close> leaves the ingredient list as it is, rows, fields and order:
  of the four cells of the component it writes the other three. As an event of the page
  it neither sends nor cancels a request.
\<close>

theorem resetChat_frame:
  "ingredients (resetChat s) = ingredients s
   \<and> ingredients (ui (step ResetClick sys)) = ingredients (ui sys)
   \<and> outstanding (step ResetClick sys) = outstanding sys"
  by (simp add: resetChat_def)

section \<open>Properties of the reply extraction\<close>

lemma replyOf_Rejected: "replyOf Rejected = Inl NetworkError"
  by (simp add: replyOf_def awaitPost_def bindE_def)

lemma replyOf_Resolved: "replyOf (Resolved data) = extractReply data"
  by (simp add: replyOf_def awaitPost_def bindE_def)

lemma sequenceE_map_Inr:
  "(\<And>x. x \<in> set xs \<Longrightarrow> f x = Inr (g x)) \<Longrightarrow> sequenceE (map f xs) = Inr (map g xs)"
  by (induction xs) (simp_all add: bindE_def)

lemma those_map_Some:
  "those (map f xs) = Some ys \<Longrightarrow> ys = map (\<lambda>x. the (f x)) xs \<and> (\<forall>x \<in> set xs. f x \<noteq> None)"
  by (induction xs arbitrary: ys) (auto split: option.splits)

lemma segmentOf_Some:
  "segmentOf part = Some t \<Longrightarrow>
   getMember (Some part) (ascii ''text'') = Inr (Some (JStr t))"
  by (cases part) (auto simp: segmentOf_def Option.bind_eq_Some_conv elim: stringOf.elims)

text \<open>
  On a body of the expected shape the program's extraction gives the segments, in the
  order of the array, joined with a line feed.
\<close>

lemma extractReply_expected:
  assumes "expectedSegments data = Some texts"
  shows "extractReply data = Inr (join [0xA] texts)"
proof -
  from assms obtain candidates cs where
    a: "objectMember data (ascii ''candidates'') = Some candidates" and
    b: "arrayElements candidates = Some cs" and
    c: "(case cs of [] \<Rightarrow> None | candidate # _ \<Rightarrow>
           Option.bind (objectMember candidate (ascii ''content'')) (\<lambda>content.
           Option.bind (objectMember content (ascii ''parts'')) (\<lambda>parts.
           Option.bind (arrayElements parts) (\<lambda>ps. those (map segmentOf ps))))) = Some texts"
    by (auto simp: expectedSegments_def Option.bind_eq_Some_conv)
  from c obtain candidate rest where cs: "cs = candidate # rest"
    by (cases cs) auto
  from c cs obtain content parts ps where
    d: "objectMember candidate (ascii ''content'') = Some content" and
    e: "objectMember content (ascii ''parts'') = Some parts" and
    f: "arrayElements parts = Some ps" and
    g: "those (map segmentOf ps) = Some texts"
    by (auto simp: Option.bind_eq_Some_conv)
  from a have 1: "getMember (Some data) (ascii ''candidates'') = Inr (Some candidates)"
    by (cases data) auto
  from b cs have 2: "getIndex0 (Some candidates) = Inr (Some candidate)"
    by (cases candidates) auto
  from d have 3: "getMember (Some candidate) (ascii ''content'') = Inr (Some content)"
    by (cases candidate) auto
  from e have 4: "getMember (Some content) (ascii ''parts'') = Inr (Some parts)"
    by (cases content) auto
  from f have 5: "parts = JArr ps"
    by (cases parts) auto
  from those_map_Some [OF g] have
    t: "texts = map (\<lambda>p. the (segmentOf p)) ps" and n: "\<forall>p \<in> set ps. segmentOf p \<noteq> None"
    by simp_all
  have "getMember (Some p) (ascii ''text'') = Inr (Some (JStr (the (segmentOf p))))"
    if "p \<in> set ps" for p
  proof -
    from n that obtain t where "segmentOf p = Some t" by auto
    then show ?thesis by (simp add: segmentOf_Some)
  qed
  then have 6: "mapText (Some parts) = Inr (map (\<lambda>p. Some (JStr (the (segmentOf p)))) ps)"
    unfolding mapText_def 5 by (simp add: sequenceE_map_Inr)
  have 7: "joinValues [0xA] (map (\<lambda>p. Some (JStr (the (segmentOf p)))) ps) = Inr (join [0xA] texts)"
  proof -
    have "sequenceE (map elementString (map (\<lambda>p. Some (JStr (the (segmentOf p)))) ps))
            = Inr (map (\<lambda>p. the (segmentOf p)) ps)"
      unfolding map_map by (rule sequenceE_map_Inr) (simp add: elementString_def)
    then show ?thesis by (simp add: joinValues_def bindE_def t)
  qed
  show ?thesis
    by (simp add: extractReply_def bindE_def 1 2 3 4 6 7)
qed

lemma expectedSegments_exampleBody: "expectedSegments exampleBody = Some [ascii ''A'', ascii ''B'']"
  by (simp add: expectedSegments_def exampleBody_def segmentOf_def ascii_def)

lemma extractReply_exampleBody: "extractReply exampleBody = Inr (ascii ''A'' @ [0xA] @ ascii ''B'')"
  using extractReply_expected [OF expectedSegments_exampleBody] by simp

text \<open>The three bodies on which the extraction throws before it reaches \<^verbatim>\<open>parts\<close>.\<close>

lemma extractReply_no_candidates:
  "objectMember data (ascii ''candidates'') = None \<Longrightarrow> extractReply data = Inl TypeError"
  by (cases data) (simp_all add: extractReply_def bindE_def)

lemma extractReply_empty_candidates:
  "objectMember data (ascii ''candidates'') = Some (JArr []) \<Longrightarrow> extractReply data = Inl TypeError"
  by (cases data) (simp_all add: extractReply_def bindE_def)

lemma extractReply_no_content:
  "objectMember data (ascii ''candidates'') = Some (JArr (c # cs)) \<Longrightarrow>
   objectMember c (ascii ''content'') = None \<Longrightarrow> extractReply data = Inl TypeError"
  by (cases data; cases c) (simp_all add: extractReply_def bindE_def)

text \<open>
  A part without \<^verbatim>\<open>text\<close> does not throw: \<^verbatim>\<open>join\<close> renders \<^verbatim>\<open>undefined\<close> as the empty
  string.
\<close>

lemma extractReply_part_without_text:
  "extractReply (JObj [(ascii ''candidates'',
      JArr [JObj [(ascii ''content'', JObj [(ascii ''parts'', JArr [JObj []])])]])]) = Inr []"
  by (simp add: extractReply_def bindE_def mapText_def joinValues_def elementString_def ascii_def)

section \<open>Properties of the two handlers\<close>

lemma sendMessage_send_nonblank:
  "trim (inputText s) \<noteq> [] \<Longrightarrow>
   sendMessage_send s =
     Some (s\<lparr>isLoading := True\<rparr>,
           map (\<lambda>msg. (Some (role msg), text_msg msg))
             (chatHistory s @ [\<lparr>role = User, text_msg = inputText s, isIngredientList = None\<rparr>]),
           SendMessageAwait
             (chatHistory s @ [\<lparr>role = User, text_msg = inputText s, isIngredientList = None\<rparr>]))"
  by (simp add: sendMessage_send_def)

lemma generateRecipe_send_nonempty:
  "ingredients s \<noteq> [] \<Longrightarrow>
   generateRecipe_send s =
     Some (s\<lparr>isLoading := True\<rparr>,
           [(None, prompt (buildPromptIngredientsList (ingredients s)))],
           GenerateRecipeAwait (buildPromptIngredientsList (ingredients s)))"
  by (simp add: generateRecipe_send_def Let_def)

lemma resume_failure:
  "replyOf out = Inl e \<Longrightarrow> resume k out s = (s\<lparr>isLoading := False\<rparr>, Some e)"
  by (cases k) simp_all

lemma trim_hi: "trim (ascii ''hi'') \<noteq> []"
  by (simp add: trim_def isWhiteSpace_def ascii_def)

text \<open>
  Claim C1 says that after a failed follow-up the appended user message remains in the
  transcript. It does not: \<^verbatim>\<open>sendMessage\<close> appends the user message to the local
  \<^verbatim>\<open>newHistory\<close> only, and \<^verbatim>\<open>setChatHistory\<close> is called on success alone. With an empty
  transcript and the input \<^verbatim>\<open>hi\<close>, a rejected request leaves the transcript empty.
\<close>

theorem sendMessage_failure_drops_user_message:
  "trim (ascii ''hi'') \<noteq> []
   \<and> chatHistory (sendMessage (initial\<lparr>inputText := ascii ''hi''\<rparr>) Rejected) = []"
  by (simp add: trim_hi sendMessage_def sendMessage_send_nonblank resume_failure
      replyOf_Rejected) (simp add: initial_def)

text \<open>
  Claim C1, amended. For every state whose input text is not blank after trimming, if the
  follow-up request fails (the promise is rejected, or reading the body throws), then
  afterwards the transcript is what it was before the submission, so no assistant message
  is appended and neither is the user message; the input field is not cleared, and the
  in-flight flag is false.
\<close>

theorem sendMessage_failure:
  assumes "trim (inputText s) \<noteq> []" and "replyOf out = Inl e"
  shows "chatHistory (sendMessage s out) = chatHistory s
       \<and> inputText (sendMessage s out) = inputText s
       \<and> isLoading (sendMessage s out) = False
       \<and> ingredients (sendMessage s out) = ingredients s"
  using assms by (simp add: sendMessage_def sendMessage_send_nonblank resume_failure)

theorem sendMessage_failure_witness:
  "trim (inputText (initial\<lparr>inputText := ascii ''hi''\<rparr>)) \<noteq> []
   \<and> replyOf Rejected = Inl NetworkError
   \<and> chatHistory (sendMessage (initial\<lparr>inputText := ascii ''hi''\<rparr>) Rejected)
       = chatHistory (initial\<lparr>inputText := ascii ''hi''\<rparr>)
   \<and> inputText (sendMessage (initial\<lparr>inputText := ascii ''hi''\<rparr>) Rejected) = ascii ''hi''
   \<and> isLoading (sendMessage (initial\<lparr>inputText := ascii ''hi''\<rparr>) Rejected) = False"
proof -
  have h1: "trim (inputText (initial\<lparr>inputText := ascii ''hi''\<rparr>)) \<noteq> []"
    by (simp add: trim_hi)
  from sendMessage_failure [OF h1 replyOf_Rejected] h1 replyOf_Rejected
  show ?thesis by simp
qed

text \<open>
  Claim C8. For every transcript and every input text that is not blank after trimming, a
  successful follow-up adds exactly two entries to the transcript, the user message with
  the input text as typed and then the assistant message with the reply, and keeps the
  earlier entries; it clears the input field. A failed one leaves the input field as it
  was, so the field is cleared on success only.
\<close>

theorem sendMessage_success:
  assumes "trim (inputText s) \<noteq> []"
  shows "(replyOf out = Inr reply \<longrightarrow>
            chatHistory (sendMessage s out)
              = chatHistory s @ [\<lparr>role = User, text_msg = inputText s, isIngredientList = None\<rparr>,
                                 \<lparr>role = Assistant, text_msg = reply, isIngredientList = None\<rparr>]
            \<and> length (chatHistory (sendMessage s out)) = length (chatHistory s) + 2
            \<and> take (length (chatHistory s)) (chatHistory (sendMessage s out)) = chatHistory s
            \<and> inputText (sendMessage s out) = [])
       \<and> (replyOf out' = Inl e \<longrightarrow>
            inputText (sendMessage s out') = inputText s \<and> inputText (sendMessage s out') \<noteq> [])"
proof (intro conjI impI)
  assume r: "replyOf out = Inr reply"
  show c: "chatHistory (sendMessage s out)
      = chatHistory s @ [\<lparr>role = User, text_msg = inputText s, isIngredientList = None\<rparr>,
                         \<lparr>role = Assistant, text_msg = reply, isIngredientList = None\<rparr>]"
    using assms r by (simp add: sendMessage_def sendMessage_send_nonblank)
  show "length (chatHistory (sendMessage s out)) = length (chatHistory s) + 2"
    by (simp add: c)
  show "take (length (chatHistory s)) (chatHistory (sendMessage s out)) = chatHistory s"
    by (simp add: c)
  show "inputText (sendMessage s out) = []"
    using assms r by (simp add: sendMessage_def sendMessage_send_nonblank)
next
  assume f: "replyOf out' = Inl e"
  show i: "inputText (sendMessage s out') = inputText s"
    using assms f by (simp add: sendMessage_def sendMessage_send_nonblank resume_failure)
  from assms have "inputText s \<noteq> []"
    by (auto simp: trim_def)
  then show "inputText (sendMessage s out') \<noteq> []"
    by (simp add: i)
qed

theorem sendMessage_success_witness:
  "trim (inputText (initial\<lparr>inputText := ascii '' hi''\<rparr>)) \<noteq> []
   \<and> replyOf (Resolved exampleBody) = Inr (ascii ''A'' @ [0xA] @ ascii ''B'')
   \<and> replyOf Rejected = Inl NetworkError
   \<and> chatHistory (sendMessage (initial\<lparr>inputText := ascii '' hi''\<rparr>) (Resolved exampleBody))
       = [\<lparr>role = User, text_msg = ascii '' hi'', isIngredientList = None\<rparr>,
          \<lparr>role = Assistant, text_msg = ascii ''A'' @ [0xA] @ ascii ''B'',
            isIngredientList = None\<rparr>]
   \<and> inputText (sendMessage (initial\<lparr>inputText := ascii '' hi''\<rparr>) (Resolved exampleBody)) = []
   \<and> inputText (sendMessage (initial\<lparr>inputText := ascii '' hi''\<rparr>) Rejected) = ascii '' hi''"
proof -
  have h: "trim (inputText (initial\<lparr>inputText := ascii '' hi''\<rparr>)) \<noteq> []"
    by (simp add: trim_def isWhiteSpace_def ascii_def)
  have r: "replyOf (Resolved exampleBody) = Inr (ascii ''A'' @ [0xA] @ ascii ''B'')"
    by (simp add: replyOf_Resolved extractReply_exampleBody)
  have c: "chatHistory (initial\<lparr>inputText := ascii '' hi''\<rparr>) = []"
    by (simp add: initial_def)
  from sendMessage_success [OF h, of "Resolved exampleBody" "ascii ''A'' @ [0xA] @ ascii ''B''"
      Rejected NetworkError] h r c replyOf_Rejected
  show ?thesis by simp
qed

text \<open>
  Claim C7. Whatever the transcript was, a successful initial submission leaves a
  transcript of exactly two entries: the user message of the ingredient list, with
  \<open>isIngredientList\<close> true, and an assistant message whose text is the reply; and the
  reply of a body of the expected shape is its part texts in array order, joined with a
  line feed (the parts \<^verbatim>\<open>A\<close>, \<^verbatim>\<open>B\<close> give \<^verbatim>\<open>A\<close>, line feed, \<^verbatim>\<open>B\<close>). A response exists only
  if the request was sent, that is if the list has a row.
\<close>

theorem generateRecipe_success:
  assumes "ingredients s \<noteq> []"
  shows "(replyOf out = Inr recipe \<longrightarrow>
            chatHistory (generateRecipe s out)
              = [\<lparr>role = User,
                   text_msg = [0x98DF, 0x6750, 0xFF1A] @ buildPromptIngredientsList (ingredients s),
                   isIngredientList = Some True\<rparr>,
                 \<lparr>role = Assistant, text_msg = recipe, isIngredientList = None\<rparr>]
            \<and> length (chatHistory (generateRecipe s out)) = 2)
       \<and> (expectedSegments data = Some texts \<longrightarrow>
            replyOf (Resolved data) = Inr (join [0xA] texts))"
proof (intro conjI impI)
  assume r: "replyOf out = Inr recipe"
  show c: "chatHistory (generateRecipe s out)
      = [\<lparr>role = User,
           text_msg = [0x98DF, 0x6750, 0xFF1A] @ buildPromptIngredientsList (ingredients s),
           isIngredientList = Some True\<rparr>,
         \<lparr>role = Assistant, text_msg = recipe, isIngredientList = None\<rparr>]"
    using assms r by (simp add: generateRecipe_def generateRecipe_send_nonempty)
  show "length (chatHistory (generateRecipe s out)) = 2"
    by (simp add: c)
next
  assume "expectedSegments data = Some texts"
  then show "replyOf (Resolved data) = Inr (join [0xA] texts)"
    by (simp add: replyOf_Resolved extractReply_expected)
qed

theorem generateRecipe_success_witness:
  "ingredients initial \<noteq> []
   \<and> replyOf (Resolved exampleBody) = Inr (ascii ''A'' @ [0xA] @ ascii ''B'')
   \<and> expectedSegments exampleBody = Some [ascii ''A'', ascii ''B'']
   \<and> chatHistory (generateRecipe initial (Resolved exampleBody))
       = [\<lparr>role = User, text_msg = [0x98DF, 0x6750, 0xFF1A], isIngredientList = Some True\<rparr>,
          \<lparr>role = Assistant, text_msg = ascii ''A'' @ [0xA] @ ascii ''B'',
            isIngredientList = None\<rparr>]"
proof -
  have h: "ingredients initial \<noteq> []"
    by (simp add: initial_def initialIngredients_def)
  have r: "replyOf (Resolved exampleBody) = Inr (ascii ''A'' @ [0xA] @ ascii ''B'')"
    by (simp add: replyOf_Resolved extractReply_exampleBody)
  have b: "buildPromptIngredientsList (ingredients initial) = []"
    by (simp add: initial_def initialIngredients_def buildPromptIngredientsList_def
        named_def trim_def)
  from generateRecipe_success [OF h, of "Resolved exampleBody" "ascii ''A'' @ [0xA] @ ascii ''B''"
      exampleBody "[ascii ''A'', ascii ''B'']"] h r b expectedSegments_exampleBody
  show ?thesis by simp
qed

text \<open>
  Claim C9. When the body of the response to the initial submission has no
  \<^verbatim>\<open>candidates\<close>, an empty \<^verbatim>\<open>candidates\<close> array, or a first candidate without \<^verbatim>\<open>content\<close>,
  reading it throws a TypeError inside the \<^verbatim>\<open>try\<close> block; the handler catches and logs
  it and ends normally, with the transcript unchanged and the in-flight flag false.
\<close>

theorem generateRecipe_malformed:
  assumes "ingredients s \<noteq> []"
    and "objectMember data (ascii ''candidates'') = None
       \<or> objectMember data (ascii ''candidates'') = Some (JArr [])
       \<or> (\<exists>c cs. objectMember data (ascii ''candidates'') = Some (JArr (c # cs))
                 \<and> objectMember c (ascii ''content'') = None)"
  shows "replyOf (Resolved data) = Inl TypeError
       \<and> resume (GenerateRecipeAwait (buildPromptIngredientsList (ingredients s)))
            (Resolved data) (s\<lparr>isLoading := True\<rparr>)
           = (s\<lparr>isLoading := False\<rparr>, Some TypeError)
       \<and> chatHistory (generateRecipe s (Resolved data)) = chatHistory s
       \<and> isLoading (generateRecipe s (Resolved data)) = False"
proof -
  from assms(2) have e: "extractReply data = Inl TypeError"
    by (auto simp: extractReply_no_candidates extractReply_empty_candidates
        extractReply_no_content)
  then have r: "replyOf (Resolved data) = Inl TypeError"
    by (simp add: replyOf_Resolved)
  from assms(1) r show ?thesis
    by (simp add: generateRecipe_def generateRecipe_send_nonempty resume_failure)
qed

theorem generateRecipe_malformed_witness:
  "ingredients initial \<noteq> []
   \<and> objectMember (JObj []) (ascii ''candidates'') = None
   \<and> chatHistory (generateRecipe initial (Resolved (JObj []))) = []
   \<and> isLoading (generateRecipe initial (Resolved (JObj []))) = False
   \<and> objectMember (JObj [(ascii ''candidates'', JArr [])]) (ascii ''candidates'') = Some (JArr [])
   \<and> chatHistory (generateRecipe initial (Resolved (JObj [(ascii ''candidates'', JArr [])]))) = []
   \<and> isLoading (generateRecipe initial (Resolved (JObj [(ascii ''candidates'', JArr [])]))) = False
   \<and> objectMember (JObj [(ascii ''candidates'', JArr [JObj []])]) (ascii ''candidates'')
       = Some (JArr [JObj []])
   \<and> objectMember (JObj []) (ascii ''content'') = None
   \<and> chatHistory (generateRecipe initial (Resolved (JObj [(ascii ''candidates'', JArr [JObj []])])))
       = []
   \<and> isLoading (generateRecipe initial (Resolved (JObj [(ascii ''candidates'', JArr [JObj []])])))
       = False"
proof -
  have h: "ingredients initial \<noteq> []"
    by (simp add: initial_def initialIngredients_def)
  have c: "chatHistory initial = []"
    by (simp add: initial_def)
  have m1: "objectMember (JObj []) (ascii ''candidates'') = None"
    by simp
  have m2: "objectMember (JObj [(ascii ''candidates'', JArr [])]) (ascii ''candidates'')
      = Some (JArr [])"
    by simp
  have m3: "objectMember (JObj [(ascii ''candidates'', JArr [JObj []])]) (ascii ''candidates'')
      = Some (JArr [JObj []])"
    by simp
  have m4: "objectMember (JObj []) (ascii ''content'') = None"
    by simp
  from generateRecipe_malformed [OF h, of "JObj []"]
    generateRecipe_malformed [OF h, of "JObj [(ascii ''candidates'', JArr [])]"]
    generateRecipe_malformed [OF h, of "JObj [(ascii ''candidates'', JArr [JObj []])]"]
    h c m1 m2 m3 m4
  show ?thesis by simp
qed

section \<open>Properties of the page\<close>

text \<open>
  The handler \<^verbatim>\<open>generateRecipe\<close> returns early on an empty list only; called on the three
  blank rows of the initial state it would send a request with an empty ingredient list.
  What keeps it from being called is the \<^verbatim>\<open>disabled\<close> attribute of its button, the only
  place that calls it. The attribute of the send button guards \<^verbatim>\<open>sendMessage\<close> likewise;
  the key handler of the input field calls \<^verbatim>\<open>sendMessage\<close> without that guard.
\<close>

lemma generateRecipe_send_blank_rows:
  "generateRecipe_send initial
     = Some (initial\<lparr>isLoading := True\<rparr>, [(None, prompt [])], GenerateRecipeAwait [])"
  by (simp add: generateRecipe_send_def initial_def initialIngredients_def
      buildPromptIngredientsList_def named_def trim_def)

lemma generateClick_guarded: "isLoading (ui sys) \<Longrightarrow> step GenerateClick sys = sys"
  by (simp add: generateDisabled_def)

lemma sendClick_guarded: "isLoading (ui sys) \<Longrightarrow> step SendClick sys = sys"
  by simp

text \<open>
  Claim C3 says that no submission starts a request while the in-flight flag is true. The
  two buttons obey it (the lemmas above); the Enter key in the chat input does not. From
  the initial state, typing \<^verbatim>\<open>hi\<close> and pressing Enter sends a request and sets the flag;
  pressing Enter again, with the flag true and the first request outstanding, sends a
  second request.
\<close>

theorem enter_while_loading:
  "isLoading (ui (run [InputChange (ascii ''hi''), InputKeyDown (ascii ''Enter'') False] start))
   \<and> length (outstanding
        (run [InputChange (ascii ''hi''), InputKeyDown (ascii ''Enter'') False] start)) = 1
   \<and> length (outstanding
        (run [InputChange (ascii ''hi''), InputKeyDown (ascii ''Enter'') False,
              InputKeyDown (ascii ''Enter'') False] start)) = 2"
  by (simp add: start_def initial_def call_def sendMessage_send_def trim_def isWhiteSpace_def
      ascii_def)

text \<open>
  Claim C4 says that the submission of the ingredients does nothing whenever a request is
  already in flight. The button that calls \<^verbatim>\<open>generateRecipe\<close> is disabled by the
  in-flight flag, and \<^verbatim>\<open>resetChat\<close> clears that flag while a request may still be
  outstanding. From the initial state, naming the first row onion, clicking the button
  and then the reset button leaves one request outstanding with the flag false; a second
  click on the button sends a second request.
\<close>

theorem generateClick_after_reset:
  "length (outstanding
      (run [RowChange (ascii ''1'') Name (ascii ''onion''), GenerateClick, ResetClick] start)) = 1
   \<and> isLoading (ui
      (run [RowChange (ascii ''1'') Name (ascii ''onion''), GenerateClick, ResetClick] start))
       = False
   \<and> length (outstanding
      (run [RowChange (ascii ''1'') Name (ascii ''onion''), GenerateClick, ResetClick,
            GenerateClick] start)) = 2"
proof -
  have t: "trim (ascii ''onion'') \<noteq> []" "trim [] = []"
    by (simp_all add: trim_def isWhiteSpace_def ascii_def)
  have i: "ascii ''2'' \<noteq> ascii ''1''" "ascii ''3'' \<noteq> ascii ''1''"
    by (simp_all add: ascii_def)
  show ?thesis
    by (simp add: start_def initial_def initialIngredients_def updateIngredient_def
        setField_def generateDisabled_def named_def call_def generateRecipe_send_def
        resetChat_def Let_def t i)
qed

text \<open>
  Claim C4, amended. When every row has a blank trimmed name, or the in-flight flag is
  true, the submission of the ingredients does nothing: the button that calls
  \<^verbatim>\<open>generateRecipe\<close> is disabled, so no request is sent and the transcript, the input text
  and the in-flight flag (the whole state of the page) stay as they are.
\<close>

theorem generateClick_noop:
  assumes "(\<forall>ing \<in> set (ingredients (ui sys)). trim (name ing) = []) \<or> isLoading (ui sys)"
  shows "step GenerateClick sys = sys"
proof -
  have "generateDisabled (ui sys)"
    using assms by (auto simp: generateDisabled_def named_def filter_empty_conv)
  then show ?thesis by simp
qed

theorem generateClick_noop_witness:
  "map (\<lambda>ing. trim (name ing)) (ingredients (ui start)) = [[], [], []]
   \<and> step GenerateClick start = start
   \<and> isLoading (ui (run [RowChange (ascii ''1'') Name (ascii ''onion''), GenerateClick] start))
   \<and> length (outstanding
        (run [RowChange (ascii ''1'') Name (ascii ''onion''), GenerateClick] start)) = 1
   \<and> step GenerateClick (run [RowChange (ascii ''1'') Name (ascii ''onion''), GenerateClick] start)
       = run [RowChange (ascii ''1'') Name (ascii ''onion''), GenerateClick] start"
proof -
  have b: "\<forall>ing \<in> set (ingredients (ui start)). trim (name ing) = []"
    by (simp add: start_def initial_def initialIngredients_def trim_def)
  have t: "trim (ascii ''onion'') \<noteq> []" "trim [] = []"
    by (simp_all add: trim_def isWhiteSpace_def ascii_def)
  have i: "ascii ''2'' \<noteq> ascii ''1''" "ascii ''3'' \<noteq> ascii ''1''"
    by (simp_all add: ascii_def)
  have l: "isLoading (ui (run [RowChange (ascii ''1'') Name (ascii ''onion''), GenerateClick] start))"
    by (simp add: start_def initial_def initialIngredients_def updateIngredient_def
        setField_def generateDisabled_def named_def call_def generateRecipe_send_def Let_def t i)
  have n: "length (outstanding
        (run [RowChange (ascii ''1'') Name (ascii ''onion''), GenerateClick] start)) = 1"
    by (simp add: start_def initial_def initialIngredients_def updateIngredient_def
        setField_def generateDisabled_def named_def call_def generateRecipe_send_def Let_def t i)
  have m: "map (\<lambda>ing. trim (name ing)) (ingredients (ui start)) = [[], [], []]"
    by (simp add: start_def initial_def initialIngredients_def trim_def)
  from generateClick_noop [of start] b
    generateClick_noop [of "run [RowChange (ascii ''1'') Name (ascii ''onion''), GenerateClick] start"]
    l n m
  show ?thesis by simp
qed

subsection \<open>The head of the transcript\<close>

lemma headed_append: "xs \<noteq> [] \<Longrightarrow> headed xs \<Longrightarrow> headed (xs @ ys)"
  by (cases xs) simp_all

lemma capturedHeaded_resume:
  "capturedHeaded k \<Longrightarrow> headed (chatHistory s) \<Longrightarrow> headed (chatHistory (fst (resume k out s)))"
  by (cases k) (auto simp: headed_append split: sum.splits)

lemma headedInv_call_generateRecipe:
  "headedInv sys \<Longrightarrow> headedInv (call generateRecipe_send sys)"
  by (auto simp: headedInv_def call_def generateRecipe_send_def Let_def)

lemma headedInv_call_sendMessage:
  "headedInv sys \<Longrightarrow> chatHistory (ui sys) \<noteq> [] \<Longrightarrow> headedInv (call sendMessage_send sys)"
  by (auto simp: headedInv_def call_def sendMessage_send_def headed_append)

lemma list_all_remove_nth:
  "list_all P xs \<Longrightarrow> list_all P (take n xs @ drop (Suc n) xs)"
  by (auto simp: list_all_iff dest: in_set_takeD in_set_dropD)

lemma headedInv_settle: "headedInv sys \<Longrightarrow> headedInv (settle n out sys)"
proof (cases "n < length (outstanding sys)")
  case False
  assume "headedInv sys"
  with False show ?thesis by (simp add: settle_def)
next
  case True
  assume inv: "headedInv sys"
  obtain req k where nth: "outstanding sys ! n = (req, k)"
    by (cases "outstanding sys ! n")
  from inv True nth have k: "capturedHeaded k"
    by (auto simp: headedInv_def list_all_length)
  obtain s' logged where r: "resume k out (ui sys) = (s', logged)"
    by (cases "resume k out (ui sys)")
  from capturedHeaded_resume [OF k, of "ui sys" out] inv r have "headed (chatHistory s')"
    by (simp add: headedInv_def)
  moreover from inv have
    "list_all (\<lambda>(req, k). capturedHeaded k) (take n (outstanding sys) @ drop (Suc n) (outstanding sys))"
    unfolding headedInv_def by (intro list_all_remove_nth) simp
  ultimately show ?thesis
    using True nth r by (simp add: settle_def headedInv_def)
qed

lemma headedInv_step:
  assumes "headedInv sys" and "sendsFollowUp e \<longrightarrow> chatHistory (ui sys) \<noteq> []"
  shows "headedInv (step e sys)"
proof (cases e)
  case GenerateClick
  with assms show ?thesis by (simp add: headedInv_call_generateRecipe)
next
  case SendClick
  with assms show ?thesis by (simp add: headedInv_call_sendMessage)
next
  case (InputKeyDown key shiftKey)
  with assms show ?thesis by (simp add: headedInv_call_sendMessage)
next
  case (Settle n out)
  with assms show ?thesis by (simp add: headedInv_settle)
qed (use assms in \<open>simp_all add: headedInv_def addIngredient_def removeIngredient_def
      updateIngredient_def resetChat_def\<close>)

lemma headedInv_run:
  "headedInv sys \<Longrightarrow> followUpsAfterRecipe es sys \<Longrightarrow> headedInv (run es sys)"
  by (induction es arbitrary: sys) (simp_all add: headedInv_step)

lemma headedInv_start: "headedInv start"
  by (simp add: headedInv_def start_def initial_def)

text \<open>
  Claim C2 says that in every reachable state a transcript that is not empty begins with
  the ingredient-list message. It does not when a follow-up is sent before any recipe:
  the chat input and its button are there from the start, and \<^verbatim>\<open>sendMessage\<close> does not
  look at the transcript. From the initial state, typing \<^verbatim>\<open>hi\<close>, clicking send and
  receiving the reply \<^verbatim>\<open>A\<close>, \<^verbatim>\<open>B\<close> gives a transcript whose first entry is the question,
  without \<open>isIngredientList\<close>.
\<close>

theorem followUp_first_counterexample:
  "chatHistory (ui (run [InputChange (ascii ''hi''), SendClick, Settle 0 (Resolved exampleBody)]
                        start))
     = [\<lparr>role = User, text_msg = ascii ''hi'', isIngredientList = None\<rparr>,
        \<lparr>role = Assistant, text_msg = ascii ''A'' @ [0xA] @ ascii ''B'', isIngredientList = None\<rparr>]"
  by (simp add: start_def initial_def call_def sendMessage_send_def settle_def
      replyOf_Resolved extractReply_exampleBody)
     (simp add: trim_def isWhiteSpace_def ascii_def)

text \<open>
  Claim C2, amended. In every state reached from the initial state by a sequence of events
  of the page (edits, submissions, resets, requests settling in any order and with any
  outcome) in which each follow-up is sent while the transcript is not empty, the
  transcript is empty or begins with a user message whose \<open>isIngredientList\<close> is true.
\<close>

theorem transcript_headed:
  assumes "followUpsAfterRecipe es start"
  shows "headed (chatHistory (ui (run es start)))"
  using headedInv_run [OF headedInv_start assms] by (simp add: headedInv_def)

theorem transcript_headed_witness:
  "followUpsAfterRecipe
     [RowChange (ascii ''1'') Name (ascii ''onion''), GenerateClick,
      Settle 0 (Resolved exampleBody), InputChange (ascii ''hi''), SendClick,
      Settle 0 (Resolved exampleBody)] start
   \<and> headed (chatHistory (ui (run
     [RowChange (ascii ''1'') Name (ascii ''onion''), GenerateClick,
      Settle 0 (Resolved exampleBody), InputChange (ascii ''hi''), SendClick,
      Settle 0 (Resolved exampleBody)] start)))
   \<and> length (chatHistory (ui (run
     [RowChange (ascii ''1'') Name (ascii ''onion''), GenerateClick,
      Settle 0 (Resolved exampleBody), InputChange (ascii ''hi''), SendClick,
      Settle 0 (Resolved exampleBody)] start))) = 4"
proof -
  have t: "trim (ascii ''onion'') \<noteq> []" "trim (ascii ''hi'') \<noteq> []" "trim [] = []"
    by (simp_all add: trim_def isWhiteSpace_def ascii_def)
  have i: "ascii ''2'' \<noteq> ascii ''1''" "ascii ''3'' \<noteq> ascii ''1''"
    by (simp_all add: ascii_def)
  have f: "followUpsAfterRecipe
     [RowChange (ascii ''1'') Name (ascii ''onion''), GenerateClick,
      Settle 0 (Resolved exampleBody), InputChange (ascii ''hi''), SendClick,
      Settle 0 (Resolved exampleBody)] start"
    by (simp add: start_def initial_def initialIngredients_def updateIngredient_def
        setField_def generateDisabled_def named_def call_def generateRecipe_send_def
        settle_def replyOf_Resolved extractReply_exampleBody Let_def t i)
  have l: "length (chatHistory (ui (run
     [RowChange (ascii ''1'') Name (ascii ''onion''), GenerateClick,
      Settle 0 (Resolved exampleBody), InputChange (ascii ''hi''), SendClick,
      Settle 0 (Resolved exampleBody)] start))) = 4"
    by (simp add: start_def initial_def initialIngredients_def updateIngredient_def
        setField_def generateDisabled_def named_def call_def generateRecipe_send_def
        sendMessage_send_def settle_def replyOf_Resolved extractReply_exampleBody Let_def t i)
  from transcript_headed [OF f] f l show ?thesis by simp
qed

end
